theory Spec2Isabelle
  imports Main "HOL-Library.Sublist"
begin

text \<open>
  A model of the query compiler of pgql: the type mapper \<open>getType\<close>, the filter compiler
  \<open>whereSQL\<close>, the builders \<open>makeQuery\<close>, \<open>makeMutationCreate\<close>,
  \<open>makeMutationUpdate\<close> and \<open>makeMutationDelete\<close>, the pagination arithmetic of the
  read resolver and the name-pattern matcher \<open>matchGitignorePattern\<close>. The source mutates
  the \<open>values\<close> array and the Table it is given; the model passes both in and returns
  them. The definitions come first, the properties after them.
\<close>

section \<open>JavaScript values and strings\<close>

text \<open>
  The scalar values the builders receive (\<open>string | number | boolean | null\<close>, the
  source's \<open>MutationValuesType\<close>). Numbers are restricted to integers.
\<close>

datatype JSValue = JString string | JNumber int | JBoolean bool | JNull

definition digit :: "nat \<Rightarrow> char" where
  "digit d = (if d = 0 then CHR ''0'' else if d = 1 then CHR ''1'' else if d = 2 then CHR ''2''
     else if d = 3 then CHR ''3'' else if d = 4 then CHR ''4'' else if d = 5 then CHR ''5''
     else if d = 6 then CHR ''6'' else if d = 7 then CHR ''7'' else if d = 8 then CHR ''8''
     else CHR ''9'')"

text \<open>Decimal rendering of a non-negative integer, as a template literal renders a number.\<close>

fun string_of_nat :: "nat \<Rightarrow> string" where
  "string_of_nat n = (if n < 10 then [digit n] else string_of_nat (n div 10) @ [digit (n mod 10)])"

declare string_of_nat.simps [simp del]

definition string_of_int :: "int \<Rightarrow> string" where
  "string_of_int i = (if i < 0 then CHR ''-'' # string_of_nat (nat (- i)) else string_of_nat (nat i))"

text \<open>\<open>String(v)\<close>.\<close>

fun String :: "JSValue \<Rightarrow> string" where
  "String (JString s) = s"
| "String (JNumber n) = string_of_int n"
| "String (JBoolean b) = (if b then ''true'' else ''false'')"
| "String JNull = ''null''"

text \<open>\<open>Boolean(v)\<close>: the truthiness of a scalar.\<close>

fun Boolean :: "JSValue \<Rightarrow> bool" where
  "Boolean (JString s) = (s \<noteq> [])"
| "Boolean (JNumber n) = (n \<noteq> 0)"
| "Boolean (JBoolean b) = b"
| "Boolean JNull = False"

text \<open>\<open>Array.prototype.join\<close> on an array of strings.\<close>

fun join :: "string \<Rightarrow> string list \<Rightarrow> string" where
  "join sep [] = []"
| "join sep [x] = x"
| "join sep (x # y # ys) = x @ sep @ join sep (y # ys)"

text \<open>
  \<open>String.prototype.replace(pattern, replacement)\<close> with a string pattern: only the first
  occurrence is replaced. Every replacement the source passes is either a run of digits or
  \<open>$\<close> followed by a run of digits; with a string pattern there are no capture groups, so
  such a replacement is inserted literally.
\<close>

fun replace :: "string \<Rightarrow> string \<Rightarrow> string \<Rightarrow> string" where
  "replace [] pat rep = (if pat = [] then rep else [])"
| "replace (c # cs) pat rep =
     (if prefix pat (c # cs) then rep @ drop (length pat) (c # cs) else c # replace cs pat rep)"

section \<open>The type mapper (\<open>utils/db/pgTypesToGraphql.ts\<close>)\<close>

datatype Scalar = TString | TInt | TFloat | TBoolean | Point | Circle | Interval

text \<open>
  An entry of the lookup table, and the value \<open>getType\<close> returns. \<open>isArray = None\<close> is an
  object without the \<open>isArray\<close> property.
\<close>

record TypeEntry =
  type :: Scalar
  isArray :: "bool option"

type_synonym TypeObject = "int \<rightharpoonup> TypeEntry"

definition register :: "int \<Rightarrow> Scalar option \<Rightarrow> bool option \<Rightarrow> TypeObject \<Rightarrow> TypeObject" where
  "register oid ty arr types =
     types(oid \<mapsto> \<lparr>type = (case ty of None \<Rightarrow> TString | Some t \<Rightarrow> t),
                     isArray = Some (case arr of None \<Rightarrow> False | Some b \<Rightarrow> b)\<rparr>)"

definition types_table :: TypeObject where
  "types_table =
    (register 1270 (Some TString) (Some True)
    (register 1183 (Some TString) (Some True)
    (register 791 (Some TString) (Some True)
    (register 2951 (Some TString) (Some True)
    (register 3907 (Some TString) (Some True)
    (register 3807 (Some TString) (Some True)
    (register 199 (Some TString) (Some True)
    (register 3802 (Some TString) None
    (register 114 (Some TString) None
    (register 17 (Some TString) None
    (register 1187 (Some Interval) (Some True)
    (register 1186 (Some Interval) None
    (register 1185 (Some TString) (Some True)
    (register 1182 (Some TString) (Some True)
    (register 1115 (Some TString) (Some True)
    (register 1041 (Some TString) (Some True)
    (register 1040 (Some TString) (Some True)
    (register 1009 (Some TString) (Some True)
    (register 1008 (Some TString) (Some True)
    (register 1015 (Some TString) (Some True)
    (register 1014 (Some TString) (Some True)
    (register 1231 (Some TFloat) (Some True)
    (register 1022 (Some TFloat) (Some True)
    (register 1021 (Some TFloat) (Some True)
    (register 1017 (Some Point) (Some True)
    (register 1016 (Some TInt) (Some True)
    (register 1028 (Some TInt) (Some True)
    (register 1007 (Some TInt) (Some True)
    (register 1005 (Some TInt) (Some True)
    (register 1001 (Some TString) (Some True)
    (register 1000 (Some TBoolean) (Some True)
    (register 718 (Some Circle) None
    (register 651 (Some TString) (Some True)
    (register 600 (Some Point) None
    (register 1184 (Some TString) None
    (register 1114 (Some TString) None
    (register 1082 (Some TString) None
    (register 16 (Some TBoolean) None
    (register 701 (Some TFloat) None
    (register 700 (Some TFloat) None
    (register 1700 (Some TFloat) None
    (register 26 (Some TInt) None
    (register 23 (Some TInt) None
    (register 21 (Some TInt) None
    (register 20 (Some TInt) None
     Map.empty)))))))))))))))))))))))))))))))))))))))))))))"

text \<open>\<open>return types[oid] || { type: 'string' }\<close>: the fallback object has no \<open>isArray\<close>.\<close>

definition getType :: "int \<Rightarrow> TypeEntry" where
  "getType oid = (case types_table oid of Some e \<Rightarrow> e | None \<Rightarrow> \<lparr>type = TString, isArray = None\<rparr>)"

text \<open>The oids the table registers, in the order of the \<open>register\<close> calls.\<close>

definition registered_oids :: "int list" where
  "registered_oids = [20, 21, 23, 26, 1700, 700, 701, 16, 1082, 1114, 1184, 600, 651, 718, 1000,
     1001, 1005, 1007, 1028, 1016, 1017, 1021, 1022, 1231, 1014, 1015, 1008, 1009, 1040, 1041,
     1115, 1182, 1185, 1186, 1187, 17, 114, 3802, 199, 3807, 3907, 2951, 791, 1183, 1270]"

section \<open>The catalog model (\<open>index.ts\<close>)\<close>

datatype Operations = CREATE | READ | UPDATE | DELETE

datatype TableKind = KTable | KView

record ForeignKeyData =
  nexusObjectName :: "string option"
  referencedSchema :: string
  referencedTable :: string
  referencedColumn :: string

record ForeignKey =
  fk_is :: bool
  fk_data :: "ForeignKeyData option"

record Column =
  c_name :: string
  c_description :: "string option"
  c_type :: string
  c_oid :: int
  c_nullable :: bool
  c_isPrimaryKey :: bool
  c_foreignKey :: ForeignKey

datatype VariableType = VString | VInt | VFloat | VBoolean

record Variable =
  v_name :: string
  v_type :: VariableType
  v_description :: "string option"
  v_nullable :: bool

record Table =
  t_name :: string
  t_description :: "string option"
  columns :: "Column list"
  operations :: "Operations list"
  t_type :: TableKind
  variables :: "Variable list option"
  defaultWhere :: "string option"
  cols :: "string list option"

text \<open>The \<open>schema\<close> argument of the builders (\<open>Omit<Schema, 'tables'>\<close>); only its name is read.\<close>

record SchemaRef =
  s_name :: string

section \<open>Condition trees\<close>

datatype SingleConditions =
  EQUAL | NOT_EQUAL | LESS_THAN | LESS_THAN_OR_EQUAL | GREATER_THAN | GREATER_THAN_OR_EQUAL
  | LIKE | ILIKE | NOT_LIKE | NOT_ILIKE | IS_NULL | IS_NOT_NULL

datatype ArrayConditions = BETWEEN | NOT_BETWEEN | IN | NOT_IN

text \<open>\<open>value = None\<close> is a condition object without \<open>value\<close> (\<open>undefined\<close>).\<close>

record SingleCondition =
  s_condition :: SingleConditions
  s_value :: "JSValue option"

record ArrayCondition =
  a_condition :: ArrayConditions
  a_value :: "JSValue list"

text \<open>The per-column object \<open>{ SINGLE?: SingleCondition; ARRAY?: ArrayCondition }\<close>.\<close>

record LeafData =
  SINGLE :: "SingleCondition option"
  ARRAY :: "ArrayCondition option"

datatype Connective = ConnAND | ConnOR

text \<open>
  An \<open>ANDType\<close>/\<open>ORType\<close> object is the list of its members in \<open>Object.keys\<close> order. The
  keys \<open>AND\<close> and \<open>OR\<close> hold arrays of objects (\<open>Sub\<close>); every other key holds a
  per-column object (\<open>Leaf\<close>), as the generated input types declare them. An object
  whose \<open>AND\<close> or \<open>OR\<close> key holds anything but an array is outside these types, and a
  \<open>Leaf\<close> stands for a key other than \<open>AND\<close> and \<open>OR\<close>.
\<close>

datatype ANDOrORType = Obj "Member list"
  and Member = Sub Connective "ANDOrORType list" | Leaf string LeafData

record WhereType =
  AND :: "ANDOrORType list option"
  OR :: "ANDOrORType list option"

section \<open>The filter compiler (\<open>whereSQL\<close>)\<close>

text \<open>
  The \<open>operators\<close> table; the source keeps one object for both kinds of condition names.
\<close>

fun operators :: "SingleConditions \<Rightarrow> string" where
  "operators EQUAL = ''=''"
| "operators NOT_EQUAL = ''<>''"
| "operators LESS_THAN = ''<''"
| "operators LESS_THAN_OR_EQUAL = ''<=''"
| "operators GREATER_THAN = ''>''"
| "operators GREATER_THAN_OR_EQUAL = ''>=''"
| "operators LIKE = ''LIKE''"
| "operators ILIKE = ''ILIKE''"
| "operators NOT_LIKE = ''NOT LIKE''"
| "operators NOT_ILIKE = ''NOT ILIKE''"
| "operators IS_NULL = ''IS NULL''"
| "operators IS_NOT_NULL = ''IS NOT NULL''"

fun operators_array :: "ArrayConditions \<Rightarrow> string" where
  "operators_array BETWEEN = ''BETWEEN''"
| "operators_array NOT_BETWEEN = ''NOT BETWEEN''"
| "operators_array IN = ''IN''"
| "operators_array NOT_IN = ''NOT IN''"

definition nullableOperators :: "SingleConditions list" where
  "nullableOperators = [IS_NULL, IS_NOT_NULL]"

text \<open>\<open>startVarIndex ?? 0\<close>.\<close>

definition startOr0 :: "nat option \<Rightarrow> nat" where
  "startOr0 startVarIndex = (case startVarIndex of None \<Rightarrow> 0 | Some n \<Rightarrow> n)"

text \<open>
  \<open>mapCondition\<close>, with the shared \<open>values\<close> array passed in and returned. A \<open>SINGLE\<close>
  condition carries a scalar (the branch \<open>Array.isArray(v)\<close> is false), an \<open>ARRAY\<close>
  condition carries an array.
\<close>

fun mapCondition ::
  "nat option \<Rightarrow> SingleCondition + ArrayCondition \<Rightarrow> string \<Rightarrow> JSValue list \<Rightarrow> string \<times> JSValue list"
where
  "mapCondition startVarIndex (Inr c) ty values =
     (let initIndex = length values;
          finalIndex = initIndex + length (a_value c);
          values1 = values @ map (\<lambda>vv. JString (String vv)) (a_value c);
          finalValues = take (finalIndex - initIndex) (drop initIndex values1)
      in (operators_array (a_condition c) @ '' ('' @
            join (''::'' @ ty @ '', '') (map (\<lambda>i. ''$'' @ string_of_nat (i + 1)) [0..<length finalValues])
            @ ''::'' @ ty @ '')'',
          values1))"
| "mapCondition startVarIndex (Inl c) ty values =
     (let values1 = (case s_value c of None \<Rightarrow> values | Some v \<Rightarrow> values @ [JString (String v)]);
          index = length values1 + startOr0 startVarIndex
      in (operators (s_condition c) @
            (case s_value c of None \<Rightarrow> [] | Some v \<Rightarrow> '' $'' @ string_of_nat index @ ''::'' @ ty),
          values1))"

text \<open>\<open>data.SINGLE ?? data.ARRAY\<close>.\<close>

definition single_or_array :: "LeafData \<Rightarrow> (SingleCondition + ArrayCondition) option" where
  "single_or_array leaf =
     (case SINGLE leaf of Some s \<Rightarrow> Some (Inl s)
      | None \<Rightarrow> (case ARRAY leaf of Some a \<Rightarrow> Some (Inr a) | None \<Rightarrow> None))"

text \<open>
  The test \<open>d?.condition && (d?.value !== undefined || nullableOperators.includes(d.condition))\<close>
  that admits a leaf into \<open>conditions\<close>.
\<close>

definition admits :: "LeafData \<Rightarrow> bool" where
  "admits leaf =
     (case single_or_array leaf of
        None \<Rightarrow> False
      | Some (Inl s) \<Rightarrow> s_value s \<noteq> None \<or> s_condition s \<in> set nullableOperators
      | Some (Inr a) \<Rightarrow> True)"

text \<open>The mapping over \<open>conditions\<close> in the result of \<open>mapWhere\<close>, left to right.\<close>

fun map_conditions ::
  "nat option \<Rightarrow> (Column \<times> LeafData) list \<Rightarrow> JSValue list \<Rightarrow> string list \<times> JSValue list"
where
  "map_conditions startVarIndex [] values = ([], values)"
| "map_conditions startVarIndex ((col, condition) # rest) values =
     (case (case single_or_array condition of
              Some d \<Rightarrow> (case mapCondition startVarIndex d (c_type col) values of
                           (s, values1) \<Rightarrow> (c_name col @ '' '' @ s, values1))
            | None \<Rightarrow> (''1 = 1'', values)) of
        (s, values1) \<Rightarrow>
          (case map_conditions startVarIndex rest values1 of
             (ss, values2) \<Rightarrow> (s # ss, values2)))"

definition conn_str :: "Connective \<Rightarrow> string" where
  "conn_str ty = (case ty of ConnAND \<Rightarrow> ''AND'' | ConnOR \<Rightarrow> ''OR'')"

text \<open>\<open>sub ? `(${sub})` : undefined\<close> followed by \<open>filter(v => Boolean(v))\<close>.\<close>

definition wrap_sub :: "string option \<Rightarrow> string list" where
  "wrap_sub sub = (case sub of None \<Rightarrow> [] | Some c \<Rightarrow> if c = [] then [] else [''('' @ c @ '')''])"

text \<open>
  \<open>mapWhere\<close>. \<open>forEach_keys\<close> is the loop \<open>keys.forEach\<close> over the members of the
  object, carrying \<open>conditions\<close>, \<open>subAND\<close>, \<open>subOR\<close> and the \<open>values\<close> array;
  \<open>map_mapWhere\<close> is \<open>va.map(v => mapWhere(v, key))\<close>.
\<close>

fun mapWhere ::
    "Column list \<Rightarrow> nat option \<Rightarrow> ANDOrORType \<Rightarrow> Connective \<Rightarrow> JSValue list \<Rightarrow> string \<times> JSValue list"
  and forEach_keys ::
    "Column list \<Rightarrow> nat option \<Rightarrow> Member list \<Rightarrow> Connective \<Rightarrow>
     (Column \<times> LeafData) list \<times> string option \<times> string option \<times> JSValue list \<Rightarrow>
     (Column \<times> LeafData) list \<times> string option \<times> string option \<times> JSValue list"
  and map_mapWhere ::
    "Column list \<Rightarrow> nat option \<Rightarrow> ANDOrORType list \<Rightarrow> Connective \<Rightarrow> JSValue list \<Rightarrow>
     string list \<times> JSValue list"
where
  "mapWhere cs startVarIndex (Obj ms) ty values =
     (case forEach_keys cs startVarIndex ms ty ([], None, None, values) of
        (conditions, subAND, subOR, values1) \<Rightarrow>
          (case map_conditions startVarIndex conditions values1 of
             (strs, values2) \<Rightarrow>
               (join ('' '' @ conn_str ty @ '' '')
                  (filter (\<lambda>s. s \<noteq> []) (strs @ wrap_sub subAND @ wrap_sub subOR)),
                values2)))"
| "forEach_keys cs startVarIndex [] ty st = st"
| "forEach_keys cs startVarIndex (Sub key va # ks) ty (conditions, subAND, subOR, values) =
     (case map_mapWhere cs startVarIndex va key values of
        (strs, values1) \<Rightarrow>
          (let c = join ('' '' @ conn_str ty @ '' '') strs
           in forEach_keys cs startVarIndex ks ty
                (if key = ConnAND then (conditions, Some c, subOR, values1)
                 else (conditions, subAND, Some c, values1))))"
| "forEach_keys cs startVarIndex (Leaf k leaf # ks) ty (conditions, subAND, subOR, values) =
     forEach_keys cs startVarIndex ks ty
       (case find (\<lambda>c. c_name c = k) cs of
          None \<Rightarrow> (conditions, subAND, subOR, values)
        | Some col \<Rightarrow>
            if admits leaf then (conditions @ [(col, leaf)], subAND, subOR, values)
            else (conditions, subAND, subOR, values))"
| "map_mapWhere cs startVarIndex [] key values = ([], values)"
| "map_mapWhere cs startVarIndex (v # vs) key values =
     (case mapWhere cs startVarIndex v key values of
        (s, values1) \<Rightarrow>
          (case map_mapWhere cs startVarIndex vs key values1 of
             (ss, values2) \<Rightarrow> (s # ss, values2)))"

text \<open>A string is truthy when it is present and not empty.\<close>

definition truthy :: "string option \<Rightarrow> bool" where
  "truthy s = (case s of None \<Rightarrow> False | Some x \<Rightarrow> x \<noteq> [])"

text \<open>
  The loop \<open>table.variables.forEach((v, i) => ...)\<close> of \<open>whereSQL\<close>: the \<open>i\<close>-th Variable
  (from 0) has its first \<open>$name\<close> token replaced by \<open>$\<close> and \<open>i + (startVarIndex ?? 0)\<close>.
\<close>

fun substitute :: "Variable list \<Rightarrow> nat \<Rightarrow> nat option \<Rightarrow> string option \<Rightarrow> string option" where
  "substitute [] i startVarIndex dw = dw"
| "substitute (v # vs) i startVarIndex dw =
     substitute vs (i + 1) startVarIndex
       (map_option (\<lambda>s. replace s (''$'' @ v_name v) (''$'' @ string_of_nat (i + startOr0 startVarIndex))) dw)"

definition map_branch ::
  "Column list \<Rightarrow> nat option \<Rightarrow> ANDOrORType list option \<Rightarrow> Connective \<Rightarrow> JSValue list \<Rightarrow>
   string list option \<times> JSValue list"
where
  "map_branch cs startVarIndex branch ty values =
     (case branch of
        None \<Rightarrow> (None, values)
      | Some va \<Rightarrow> (case map_mapWhere cs startVarIndex va ty values of (ss, values1) \<Rightarrow> (Some ss, values1)))"

text \<open>
  \<open>whereSQL\<close> returns the predicate; the model also returns the \<open>values\<close> array and the
  Table as the call leaves them, since the source writes to both.
\<close>

definition whereSQL ::
  "WhereType \<Rightarrow> JSValue list \<Rightarrow> Table \<Rightarrow> nat option \<Rightarrow> string \<times> JSValue list \<times> Table"
where
  "whereSQL wher values tbl startVarIndex =
     (case map_branch (columns tbl) startVarIndex (AND wher) ConnAND values of
        (AND', values1) \<Rightarrow>
     (case map_branch (columns tbl) startVarIndex (OR wher) ConnOR values1 of
        (OR', values2) \<Rightarrow>
     (let tbl1 = (case variables tbl of
                    None \<Rightarrow> tbl
                  | Some vars \<Rightarrow>
                      if truthy (defaultWhere tbl)
                      then tbl\<lparr>defaultWhere := substitute vars 0 startVarIndex (defaultWhere tbl)\<rparr>
                      else tbl)
      in (''WHERE '' @
            (case defaultWhere tbl1 of
               None \<Rightarrow> []
             | Some dw \<Rightarrow> if dw = [] then [] else ''('' @ dw @ '') = TRUE AND '') @
            join '' AND ''
              (List.map_filter (\<lambda>x. x)
                 [map_option (join '' AND '') AND', map_option (join '' OR '') OR']),
          values2, tbl1))))"

section \<open>The query builders\<close>

text \<open>
  What a builder can throw: \<open>new Error(message)\<close>, written in the source, or the
  \<open>TypeError\<close> of calling \<open>map\<close> on an object that is no array.
\<close>

datatype error = Error string | TypeError

record QueryReturn =
  q_query :: string
  q_values :: "JSValue list"
  q_orderByQuery :: "string option"
  q_whereQuery :: "string option"

record MutationUpdateReturn =
  u_query :: string
  u_whereQuery :: string
  u_values :: "JSValue list"

record MutationDeleteReturn =
  d_query :: string
  d_whereQuery :: string
  d_values :: "JSValue list"

text \<open>\<open>where.AND || where.OR\<close>: an array is truthy, also when empty.\<close>

definition has_branch :: "WhereType \<Rightarrow> bool" where
  "has_branch wher = (AND wher \<noteq> None \<or> OR wher \<noteq> None)"

text \<open>The local function \<open>orderBySQL\<close> of \<open>makeQuery\<close>; the map is in \<open>Object.keys\<close> order.\<close>

definition orderBySQL :: "(string \<times> string) list \<Rightarrow> string" where
  "orderBySQL orderBy =
     (let keys = map fst orderBy
      in if length keys \<le> 0 \<or> \<not> list_all (\<lambda>(k, d). d = ''ASC'' \<or> d = ''DESC'') orderBy then []
         else ''ORDER BY '' @ join '', '' (map (\<lambda>(k, d). k @ '' '' @ d) orderBy))"

text \<open>
  \<open>table.variables?.filter(v => !v.nullable && table.defaultWhere).map(v => v.name) ?? []\<close>.
\<close>

definition requiredVariables :: "Table \<Rightarrow> string list" where
  "requiredVariables tbl =
     (case variables tbl of
        None \<Rightarrow> []
      | Some vars \<Rightarrow> map v_name (filter (\<lambda>v. \<not> v_nullable v \<and> truthy (defaultWhere tbl)) vars))"

text \<open>
  The \<open>whereQuery\<close> of \<open>makeQuery\<close>: \<open>whereSQL\<close> when the tree has a branch, else the
  Table's raw \<open>defaultWhere\<close> or \<open>TRUE = TRUE\<close>.
\<close>

definition default_where :: "Table \<Rightarrow> string" where
  "default_where tbl =
     ''WHERE '' @
       (case defaultWhere tbl of
          None \<Rightarrow> ''TRUE = TRUE''
        | Some dw \<Rightarrow> if dw = [] then ''TRUE = TRUE'' else ''('' @ dw @ '') = TRUE'')"

definition query_where :: "WhereType option \<Rightarrow> JSValue list \<Rightarrow> Table \<Rightarrow> string \<times> JSValue list \<times> Table" where
  "query_where wher values tbl =
     (case wher of
        None \<Rightarrow> (default_where tbl, values, tbl)
      | Some w \<Rightarrow> if has_branch w then whereSQL w values tbl None else (default_where tbl, values, tbl))"

text \<open>
  \<open>makeQuery\<close>. \<open>variables\<close> is the object of Variable values in \<open>Object.keys\<close> order.
  The result carries the Table as the call leaves it.
\<close>

definition makeQuery ::
  "SchemaRef \<Rightarrow> Table \<Rightarrow> int \<Rightarrow> int \<Rightarrow> WhereType option \<Rightarrow> (string \<times> JSValue) list option \<Rightarrow>
   (string \<times> string) list option \<Rightarrow> string list option \<Rightarrow> error + (QueryReturn \<times> Table)"
where
  "makeQuery schema tbl limit offset wher vars orderBy colsArg =
     (let colsSQL =
            (case colsArg of
               None \<Rightarrow> ''*''
             | Some cs \<Rightarrow>
                 if length cs > 0 \<and> list_all (\<lambda>c. find (\<lambda>cc. c_name cc = c) (columns tbl) \<noteq> None) cs
                 then join '', '' cs else ''*'');
          required = requiredVariables tbl;
          supplied = (case vars of None \<Rightarrow> [] | Some vs \<Rightarrow> vs)
      in if \<not> list_all (\<lambda>v. v \<in> set required) (map fst supplied)
         then Inl (Error (''One required variable is missing. Required variables: '' @ join '', '' required))
         else
           (let values0 = map (\<lambda>v. JString (String v)) (filter Boolean (map snd supplied));
                nvars = (case variables tbl of None \<Rightarrow> 0 | Some vs \<Rightarrow> length vs);
                values1 = (if length values0 < nvars
                           then values0 @ replicate (nvars - length values0) JNull else values0);
                orderByQuery = (case orderBy of None \<Rightarrow> [] | Some ob \<Rightarrow> orderBySQL ob)
            in (case query_where wher values1 tbl of
               (whereQuery, values2, tbl1) \<Rightarrow>
                 (let values3 = values2 @ [JString (string_of_int limit), JString (string_of_int offset)];
                      query = ''SELECT '' @ colsSQL @ '' FROM '' @ s_name schema @ ''.'' @ t_name tbl1 @ '' '' @
                        whereQuery @ '' '' @ orderByQuery @ '' LIMIT $'' @ string_of_nat (length values3 - 1) @
                        ''::integer OFFSET $'' @ string_of_nat (length values3) @ ''::integer''
                  in Inr (\<lparr>q_query = query, q_values = values3,
                           q_orderByQuery = (if length orderByQuery < 1 then None else Some orderByQuery),
                           q_whereQuery = (if length whereQuery < 1 then None else Some whereQuery)\<rparr>,
                          tbl1)))))"

text \<open>\<open>getPagesQuery\<close>; \<open>wher\<close> is the optional object \<open>{ sql, finalIndex }\<close>.\<close>

definition getPagesQuery :: "string \<Rightarrow> string \<Rightarrow> (string \<times> nat) option \<Rightarrow> string" where
  "getPagesQuery schemaName tableName wher =
     ''SELECT (count(*) / $'' @ string_of_nat (case wher of None \<Rightarrow> 1 | Some (sql, finalIndex) \<Rightarrow> finalIndex) @
     '') as pages, count(*) as total_rows FROM '' @ schemaName @ ''.'' @ tableName @ '' '' @
     (case wher of None \<Rightarrow> [] | Some (sql, finalIndex) \<Rightarrow> sql)"

text \<open>
  \<open>makeMutationUpdate\<close>; \<open>val\<close> is the object of new column values in key order.
  \<open>update_keys\<close> and \<open>update_values\<close> are its local constants \<open>keys\<close> and
  \<open>updateValues\<close>.
\<close>

definition update_keys :: "Table \<Rightarrow> (string \<times> JSValue) list \<Rightarrow> string list" where
  "update_keys tbl val =
     (let allowed = (case cols tbl of None \<Rightarrow> map c_name (columns tbl) | Some cs \<Rightarrow> cs)
      in filter (\<lambda>k. k \<noteq> []) (filter (\<lambda>k. k \<in> set allowed) (map fst val)))"

definition update_values :: "Table \<Rightarrow> (string \<times> JSValue) list \<Rightarrow> JSValue list" where
  "update_values tbl val =
     map (\<lambda>k. case map_of val k of None \<Rightarrow> JNull | Some v \<Rightarrow> v) (update_keys tbl val)"

definition makeMutationUpdate ::
  "SchemaRef \<Rightarrow> Table \<Rightarrow> (string \<times> JSValue) list \<Rightarrow> WhereType \<Rightarrow> MutationUpdateReturn \<times> Table"
where
  "makeMutationUpdate schema tbl val wher =
     (let keys = update_keys tbl val;
          updateValues = update_values tbl val
      in (case (if has_branch wher then whereSQL wher [] tbl None
                else (''WHERE TRUE IS FALSE'', [], tbl)) of
            (whereQuery, values0, tbl1) \<Rightarrow>
              (let values1 = values0 @ updateValues;
                   query = ''UPDATE '' @ s_name schema @ ''.'' @ t_name tbl1 @ '' SET ('' @ join '', '' keys @
                     '') = ('' @
                     join '', '' (map (\<lambda>i. ''$'' @ string_of_nat (length values1 - length updateValues + i + 1))
                                   [0..<length updateValues]) @
                     '') '' @ whereQuery @ '' RETURNING *''
               in (\<lparr>u_query = query, u_whereQuery = whereQuery, u_values = values1\<rparr>, tbl1))))"

definition makeMutationDelete ::
  "SchemaRef \<Rightarrow> Table \<Rightarrow> WhereType \<Rightarrow> MutationDeleteReturn \<times> Table"
where
  "makeMutationDelete schema tbl wher =
     (case (if has_branch wher then whereSQL wher [] tbl None
            else (''WHERE TRUE IS FALSE'', [], tbl)) of
        (whereQuery, values0, tbl1) \<Rightarrow>
          (\<lparr>d_query = ''DELETE FROM '' @ s_name schema @ ''.'' @ t_name tbl1 @ '' '' @ whereQuery @
                       '' RETURNING *'',
            d_whereQuery = whereQuery, d_values = values0\<rparr>, tbl1))"

text \<open>
  \<open>makeMutationCreate\<close>. \<open>vals\<close> is the array of value objects, \<open>variables\<close> the optional
  array of objects the caller passes for the Variables. An element of \<open>finalValues\<close> is a
  row of values or, after \<open>finalValues.push(v as any)\<close>, one of those objects; calling
  \<open>v.map\<close> on an object raises a \<open>TypeError\<close>.
\<close>

type_synonym JSObject = "(string \<times> JSValue) list"

datatype FinalValue = Row "JSValue list" | Pushed JSObject

datatype Param = PScalar JSValue | PObject JSObject

record MutationCreateReturn =
  mc_query :: string
  mc_values :: "Param list"

text \<open>\<open>!va[name]\<close>: the property is absent or holds a falsy value.\<close>

definition falsy_property :: "JSObject \<Rightarrow> string \<Rightarrow> bool" where
  "falsy_property va n = (case map_of va n of None \<Rightarrow> True | Some x \<Rightarrow> \<not> Boolean x)"

text \<open>The first Variable at which the nested \<open>forEach\<close> loops throw, if any.\<close>

definition create_check :: "Table \<Rightarrow> JSObject list option \<Rightarrow> Variable option" where
  "create_check tbl vars =
     (case variables tbl of
        None \<Rightarrow> None
      | Some declared \<Rightarrow>
          find (\<lambda>v. case vars of None \<Rightarrow> False | Some vas \<Rightarrow> list_ex (\<lambda>va. falsy_property va (v_name v)) vas)
            (filter (\<lambda>v. \<not> v_nullable v \<and> truthy (defaultWhere tbl)) declared))"

definition create_keys :: "Table \<Rightarrow> string list" where
  "create_keys tbl =
     map c_name
       (filter (\<lambda>c. case cols tbl of
                      None \<Rightarrow> True
                    | Some cs \<Rightarrow> if length cs > 0 then \<not> c_nullable c \<or> c_name c \<in> set cs else True)
          (columns tbl))"

text \<open>
  The loop \<open>variables?.forEach((v, i) => ...)\<close>: \<open>v.name\<close> reads the property called
  \<open>name\<close> of the pushed object (\<open>undefined\<close> when it has none).
\<close>

fun push_variables ::
  "JSObject list \<Rightarrow> nat \<Rightarrow> FinalValue list \<Rightarrow> string option \<Rightarrow> FinalValue list \<times> string option"
where
  "push_variables [] i finalValues dw = (finalValues, dw)"
| "push_variables (v # vs) i finalValues dw =
     (let finalValues1 = finalValues @ [Pushed v];
          token = ''$'' @ (case map_of v ''name'' of None \<Rightarrow> ''undefined'' | Some x \<Rightarrow> String x)
      in push_variables vs (i + 1) finalValues1
           (map_option (\<lambda>s. replace s token (string_of_nat (length finalValues1 - i))) dw))"

text \<open>\<open>xs.slice(0, e)\<close>: a negative \<open>e\<close> counts from the end.\<close>

definition slice0 :: "'a list \<Rightarrow> int \<Rightarrow> 'a list" where
  "slice0 xs e = (let n = int (length xs) in take (nat (if e < 0 then max (n + e) 0 else min e n)) xs)"

text \<open>
  \<open>rows.map((v, multiplier) => v.map((_, i) => `$${keys.length * multiplier + (i + 1)}`).join(', '))\<close>,
  from index \<open>multiplier\<close> on, each row in parentheses when \<open>paren\<close> is set.
\<close>

fun row_placeholders :: "nat \<Rightarrow> nat \<Rightarrow> bool \<Rightarrow> FinalValue list \<Rightarrow> error + string list" where
  "row_placeholders nkeys multiplier paren [] = Inr []"
| "row_placeholders nkeys multiplier paren (Pushed v # rest) = Inl TypeError"
| "row_placeholders nkeys multiplier paren (Row v # rest) =
     (case row_placeholders nkeys (multiplier + 1) paren rest of
        Inl e \<Rightarrow> Inl e
      | Inr ss \<Rightarrow>
          (let r = join '', '' (map (\<lambda>i. ''$'' @ string_of_nat (nkeys * multiplier + (i + 1))) [0..<length v])
           in Inr ((if paren then ''('' @ r @ '')'' else r) # ss)))"

text \<open>\<open>finalValues.flat()\<close>: rows are spliced in, a pushed object stays one element.\<close>

fun flat :: "FinalValue list \<Rightarrow> Param list" where
  "flat [] = []"
| "flat (Row v # rest) = map PScalar v @ flat rest"
| "flat (Pushed v # rest) = PObject v # flat rest"

definition makeMutationCreate ::
  "SchemaRef \<Rightarrow> Table \<Rightarrow> JSObject list \<Rightarrow> JSObject list option \<Rightarrow>
   error + (MutationCreateReturn \<times> Table)"
where
  "makeMutationCreate schema tbl vals vars =
     (case create_check tbl vars of
        Some v \<Rightarrow> Inl (Error (''Variable '' @ v_name v @ '' is required''))
      | None \<Rightarrow>
          (let keys = create_keys tbl;
               finalValues0 = map (\<lambda>v. Row (map (\<lambda>k. case map_of v k of None \<Rightarrow> JNull | Some x \<Rightarrow> x) keys)) vals
           in (case push_variables (case vars of None \<Rightarrow> [] | Some vas \<Rightarrow> vas) 0 finalValues0 (defaultWhere tbl) of
                 (finalValues, dw) \<Rightarrow>
                   (let tbl1 = tbl\<lparr>defaultWhere := dw\<rparr>;
                        nvars = (case variables tbl1 of None \<Rightarrow> 0 | Some declared \<Rightarrow> length declared)
                    in (case (if truthy (defaultWhere tbl1)
                              then (case row_placeholders (length keys) 0 False
                                           (slice0 finalValues (int (length finalValues) - int nvars)) of
                                      Inl e \<Rightarrow> Inl e
                                    | Inr ss \<Rightarrow>
                                        Inr (''SELECT '' @ join '', '' ss @ '' WHERE ('' @
                                             (case defaultWhere tbl1 of None \<Rightarrow> [] | Some d \<Rightarrow> d) @ '')''))
                              else (case row_placeholders (length keys) 0 True finalValues of
                                      Inl e \<Rightarrow> Inl e
                                    | Inr ss \<Rightarrow> Inr (''VALUES '' @ join '', '' ss))) of
                          Inl e \<Rightarrow> Inl e
                        | Inr stringValues \<Rightarrow>
                            Inr (\<lparr>mc_query = ''INSERT INTO '' @ s_name schema @ ''.'' @ t_name tbl1 @ ''('' @
                                              join '', '' keys @ '') '' @ stringValues @ '' RETURNING *'',
                                  mc_values = flat finalValues\<rparr>,
                                 tbl1))))))"

section \<open>Pagination in the read resolver\<close>

text \<open>
  The arithmetic of the \<open>resolve\<close> function of the read field. \<open>page\<close> and \<open>maxRows\<close> are
  the GraphQL \<open>Int\<close> arguments. \<open>pages\<close> and \<open>total_rows\<close> are \<open>Number(...)\<close> of the two
  columns of the count query, \<open>None\<close> standing for \<open>NaN\<close>.
\<close>

definition numberOfResults :: "int \<Rightarrow> int" where
  "numberOfResults maxRows = (if maxRows \<le> 100 \<and> maxRows > 0 then maxRows else 100)"

definition pageNumber :: "int \<Rightarrow> int" where
  "pageNumber page = (if page \<ge> 0 then page - 1 else 0)"

text \<open>The \<open>limit\<close> and \<open>offset\<close> arguments the resolver passes to \<open>makeQuery\<close>.\<close>

definition resolve_limit :: "int \<Rightarrow> int" where
  "resolve_limit maxRows = numberOfResults maxRows"

definition resolve_offset :: "int \<Rightarrow> int \<Rightarrow> int" where
  "resolve_offset page maxRows = pageNumber page * numberOfResults maxRows"

record PageInfo =
  pages :: int
  totalRows :: int
  currentPage :: int
  rowsPerPage :: int
  hasNextPage :: bool

definition resolve_page_info :: "int \<Rightarrow> int \<Rightarrow> int option \<Rightarrow> int option \<Rightarrow> PageInfo" where
  "resolve_page_info page maxRows pagesRaw total_rows =
     \<lparr>pages = (case pagesRaw of None \<Rightarrow> 1 | Some p \<Rightarrow> p + 1),
      totalRows = (case total_rows of None \<Rightarrow> 0 | Some t \<Rightarrow> t),
      currentPage = (if pageNumber page \<le> 0 then 1 else pageNumber page),
      rowsPerPage = numberOfResults maxRows,
      hasNextPage = ((case pagesRaw of None \<Rightarrow> 0 | Some p \<Rightarrow> p) - pageNumber page > 0)\<rparr>"

section \<open>The name-pattern matcher (\<open>utils/string.ts\<close>)\<close>

definition backslash :: char where
  "backslash = CHR 0x5C"

text \<open>The characters of the class \<open>[\-\[\]\/\{\}\(\)\+\?\.\\\^\$\|]\<close>.\<close>

definition escaped_class :: "char list" where
  "escaped_class = ''-[]/{}()+?.^$|'' @ [backslash]"

text \<open>A global \<open>replace\<close> whose pattern is a one-character class rewrites each character on its own.\<close>

definition replace_class_g :: "(char \<Rightarrow> bool) \<Rightarrow> (char \<Rightarrow> string) \<Rightarrow> string \<Rightarrow> string" where
  "replace_class_g cls f s = concat (map (\<lambda>c. if cls c then f c else [c]) s)"

text \<open>The three \<open>replace\<close> calls of \<open>matchGitignorePattern\<close>, in the order of the source.\<close>

definition glob_to_regex :: "string \<Rightarrow> string" where
  "glob_to_regex pattern =
     replace_class_g (\<lambda>c. c = CHR ''?'') (\<lambda>c. ''.{1}'')
       (replace_class_g (\<lambda>c. c = CHR ''*'') (\<lambda>c. ''.*'')
          (replace_class_g (\<lambda>c. c \<in> set escaped_class) (\<lambda>c. [backslash, c]) pattern))"

text \<open>
  The part of JavaScript's regular expressions that \<open>new RegExp\<close> meets here: a pattern
  \<open>^...$\<close> whose body is a sequence of atoms (\<open>.\<close>, an escaped syntax character, or an
  ordinary character), each optionally followed by \<open>*\<close> or \<open>{1}\<close>. \<open>.\<close> matches every
  character but a line terminator. \<open>None\<close> is a pattern outside this part.
\<close>

datatype atom = AnyChar | Lit char

datatype quantifier = Once | Star

definition syntax_chars :: "char list" where
  "syntax_chars = ''^$.*+?()[]{}|'' @ [backslash]"

fun parse_body :: "string \<Rightarrow> (atom \<times> quantifier) list option"
  and parse_quantifier :: "atom \<Rightarrow> string \<Rightarrow> (atom \<times> quantifier) list option"
where
  "parse_body [] = Some []"
| "parse_body (c # cs) =
     (if c = backslash then
        (case cs of
           [] \<Rightarrow> None
         | d # ds \<Rightarrow> if d \<in> set syntax_chars \<or> d \<in> set escaped_class then parse_quantifier (Lit d) ds else None)
      else if c = CHR ''.'' then parse_quantifier AnyChar cs
      else if c \<in> set syntax_chars then None
      else parse_quantifier (Lit c) cs)"
| "parse_quantifier a [] = Some [(a, Once)]"
| "parse_quantifier a (c # cs) =
     (if c = CHR ''*'' then map_option (\<lambda>r. (a, Star) # r) (parse_body cs)
      else if c = CHR ''{'' then
        (case cs of
           d # e # es \<Rightarrow> if d = CHR ''1'' \<and> e = CHR ''}'' then map_option (\<lambda>r. (a, Once) # r) (parse_body es)
                        else None
         | _ \<Rightarrow> None)
      else map_option (\<lambda>r. (a, Once) # r) (parse_body (c # cs)))"

definition line_terminator :: "char \<Rightarrow> bool" where
  "line_terminator c = (c = CHR 0x0A \<or> c = CHR 0x0D)"

fun atom_matches :: "atom \<Rightarrow> char \<Rightarrow> bool" where
  "atom_matches AnyChar c = (\<not> line_terminator c)"
| "atom_matches (Lit d) c = (c = d)"

fun matches :: "(atom \<times> quantifier) list \<Rightarrow> string \<Rightarrow> bool" where
  "matches [] s = (s = [])"
| "matches ((a, Once) # r) s = (case s of [] \<Rightarrow> False | c # cs \<Rightarrow> atom_matches a c \<and> matches r cs)"
| "matches ((a, Star) # r) s =
     (matches r s \<or> (case s of [] \<Rightarrow> False | c # cs \<Rightarrow> atom_matches a c \<and> matches ((a, Star) # r) cs))"

text \<open>\<open>new RegExp(source).test(str)\<close> for a source of the form \<open>^body$\<close>.\<close>

definition RegExp_test :: "string \<Rightarrow> string \<Rightarrow> bool option" where
  "RegExp_test source str =
     (case source of
        [] \<Rightarrow> None
      | c # cs \<Rightarrow>
          if c = CHR ''^'' \<and> cs \<noteq> [] \<and> last cs = CHR ''$''
          then map_option (\<lambda>r. matches r str) (parse_body (butlast cs))
          else None)"

definition matchGitignorePattern :: "string \<Rightarrow> string \<Rightarrow> bool option" where
  "matchGitignorePattern pattern str = RegExp_test (''^'' @ glob_to_regex pattern @ ''$'') str"

text \<open>
  What the regular expression built for a pattern stands for, character by character:
  \<open>*\<close> is any run of characters of a line, \<open>?\<close> is one dot, any other character is
  itself.
\<close>

definition glob_item :: "char \<Rightarrow> atom \<times> quantifier" where
  "glob_item c = (if c = CHR ''*'' then (AnyChar, Star) else if c = CHR ''?'' then (Lit CHR ''.'', Once)
                  else (Lit c, Once))"

text \<open>A remaining pattern text that does not begin with a quantifier.\<close>

definition bare :: "string \<Rightarrow> bool" where
  "bare rest = (case rest of [] \<Rightarrow> True | c # cs \<Rightarrow> c \<noteq> CHR ''*'' \<and> c \<noteq> CHR ''{'')"

section \<open>Reading a statement back\<close>

text \<open>
  The positional placeholders of a SQL text, in the order they appear: every \<open>$\<close> that is
  followed by a run of decimal digits, read as a number.
\<close>

definition is_digit :: "char \<Rightarrow> bool" where
  "is_digit c = (c \<in> set ''0123456789'')"

definition digit_value :: "char \<Rightarrow> nat" where
  "digit_value c = (if c = CHR ''1'' then 1 else if c = CHR ''2'' then 2 else if c = CHR ''3'' then 3
     else if c = CHR ''4'' then 4 else if c = CHR ''5'' then 5 else if c = CHR ''6'' then 6
     else if c = CHR ''7'' then 7 else if c = CHR ''8'' then 8 else if c = CHR ''9'' then 9 else 0)"

definition nat_of_digits :: "string \<Rightarrow> nat" where
  "nat_of_digits ds = foldl (\<lambda>n c. 10 * n + digit_value c) 0 ds"

fun placeholders :: "string \<Rightarrow> nat list" where
  "placeholders [] = []"
| "placeholders (c # cs) =
     (if c = CHR ''$'' \<and> takeWhile is_digit cs \<noteq> []
      then nat_of_digits (takeWhile is_digit cs) # placeholders cs
      else placeholders cs)"

text \<open>
  The 1:1 correspondence the specification asks of a compiled statement: as many
  placeholders as parameters, and their indices are \<open>1, ..., n\<close> with no gap and no repeat.
\<close>

definition placeholders_match :: "string \<Rightarrow> 'a list \<Rightarrow> bool" where
  "placeholders_match sql params =
     (length (placeholders sql) = length params \<and> distinct (placeholders sql) \<and>
      set (placeholders sql) = {1..length params})"

section \<open>What a compilation leaves of a Table\<close>


section \<open>Example inputs\<close>

definition column :: "string \<Rightarrow> string \<Rightarrow> int \<Rightarrow> bool \<Rightarrow> Column" where
  "column n t oid pk =
     \<lparr>c_name = n, c_description = None, c_type = t, c_oid = oid, c_nullable = False,
      c_isPrimaryKey = pk, c_foreignKey = \<lparr>fk_is = False, fk_data = None\<rparr>\<rparr>"

text \<open>The Table \<open>users\<close> of the specification's scenario, and the schema it lives in.\<close>

definition users :: Table where
  "users =
     \<lparr>t_name = ''users'', t_description = None,
      columns = [column ''id'' ''int4'' 23 True, column ''name'' ''text'' 25 False,
                 column ''email'' ''text'' 25 False],
      operations = [CREATE, READ, UPDATE, DELETE], t_type = KTable,
      variables = None, defaultWhere = None, cols = None\<rparr>"

definition app :: SchemaRef where
  "app = \<lparr>s_name = ''app''\<rparr>"

text \<open>
  The same Table behind a \<open>defaultWhere\<close> gate with the required Variable \<open>uid\<close>, and
  with an optional Variable \<open>tag\<close> declared as well.
\<close>

definition uid :: Variable where
  "uid = \<lparr>v_name = ''uid'', v_type = VInt, v_description = None, v_nullable = False\<rparr>"

definition tag :: Variable where
  "tag = \<lparr>v_name = ''tag'', v_type = VString, v_description = None, v_nullable = True\<rparr>"

definition owned_users :: Table where
  "owned_users = users\<lparr>variables := Some [uid], defaultWhere := Some ''owner = $uid''\<rparr>"

definition tagged_users :: Table where
  "tagged_users = users\<lparr>variables := Some [uid, tag], defaultWhere := Some ''owner = $uid''\<rparr>"

definition single :: "SingleConditions \<Rightarrow> JSValue \<Rightarrow> LeafData" where
  "single c v = \<lparr>SINGLE = Some \<lparr>s_condition = c, s_value = Some v\<rparr>, ARRAY = None\<rparr>"

definition array :: "ArrayConditions \<Rightarrow> JSValue list \<Rightarrow> LeafData" where
  "array c vs = \<lparr>SINGLE = None, ARRAY = Some \<lparr>a_condition = c, a_value = vs\<rparr>\<rparr>"

text \<open>\<open>{ AND: [{ name: { SINGLE: { condition: 'EQUAL', value: 'Ana' } } }] }\<close>\<close>

definition name_is_Ana :: WhereType where
  "name_is_Ana = \<lparr>AND = Some [Obj [Leaf ''name'' (single EQUAL (JString ''Ana''))]], OR = None\<rparr>"

text \<open>
  \<open>{ AND: [{ name: { SINGLE: { condition: 'EQUAL', value: 'Ana' } },
               id: { ARRAY: { condition: 'IN', value: [1, 2] } } }] }\<close>
\<close>

definition name_and_ids :: WhereType where
  "name_and_ids =
     \<lparr>AND = Some [Obj [Leaf ''name'' (single EQUAL (JString ''Ana'')),
                       Leaf ''id'' (array IN [JNumber 1, JNumber 2])]],
      OR = None\<rparr>"

text \<open>
  \<open>{ AND: [{ nickname: { SINGLE: { condition: 'EQUAL', value: 'x' } },
               name: { SINGLE: { condition: 'EQUAL', value: 'Ana' } } }] }\<close>;
  \<open>users\<close> has no column \<open>nickname\<close>.
\<close>

definition with_unknown_column :: WhereType where
  "with_unknown_column =
     \<lparr>AND = Some [Obj [Leaf ''nickname'' (single EQUAL (JString ''x'')),
                       Leaf ''name'' (single EQUAL (JString ''Ana''))]],
      OR = None\<rparr>"

text \<open>
  \<open>{ AND: [{ nickname: { SINGLE: { condition: 'EQUAL', value: 'x' } } },
            { name: { SINGLE: { condition: 'EQUAL', value: 'Ana' } } }] }\<close>:
  the unknown column is the only key of its object.
\<close>

definition unknown_column_alone :: WhereType where
  "unknown_column_alone =
     \<lparr>AND = Some [Obj [Leaf ''nickname'' (single EQUAL (JString ''x''))],
                  Obj [Leaf ''name'' (single EQUAL (JString ''Ana''))]],
      OR = None\<rparr>"

definition no_branches :: WhereType where
  "no_branches = \<lparr>AND = None, OR = None\<rparr>"

section \<open>Properties of the type mapper\<close>

lemma types_table_unregistered: "oid \<notin> set registered_oids \<Longrightarrow> types_table oid = None"
  by (simp add: types_table_def register_def registered_oids_def)

lemma types_table_registered: "oid \<in> set registered_oids \<Longrightarrow> types_table oid \<noteq> None"
  by (auto simp add: types_table_def register_def registered_oids_def)

lemma types_table_isArray: "types_table oid = Some e \<Longrightarrow> \<exists>b. isArray e = Some b"
  by (auto simp add: types_table_def register_def split: if_splits)

lemma getType_unregistered:
  "oid \<notin> set registered_oids \<Longrightarrow> getType oid = \<lparr>type = TString, isArray = None\<rparr>"
  by (simp add: getType_def types_table_unregistered)

lemma getType_registered:
  "oid \<in> set registered_oids \<Longrightarrow> types_table oid = Some (getType oid)"
  using types_table_registered [of oid] by (auto simp add: getType_def)

text \<open>
  C8. For an oid outside the lookup table the claim expects the object
  \<open>{type: 'string', isArray: false}\<close>. At oid 25 (\<open>text\<close>), which no \<open>register\<close> call
  names, \<open>getType\<close> returns the fallback literal \<open>{type: 'string'}\<close>: the kind is
  \<open>string\<close>, the \<open>isArray\<close> property is absent, and the result differs from the object
  the claim names. The registered examples of the claim (1000, 23, 1186) do hold.
\<close>

theorem C8_getType_unknown_oid_has_no_isArray:
  "getType 25 = \<lparr>type = TString, isArray = None\<rparr> \<and>
   getType 25 \<noteq> \<lparr>type = TString, isArray = Some False\<rparr> \<and>
   getType 1000 = \<lparr>type = TBoolean, isArray = Some True\<rparr> \<and>
   getType 23 = \<lparr>type = TInt, isArray = Some False\<rparr> \<and>
   getType 1186 = \<lparr>type = Interval, isArray = Some False\<rparr>"
  by (simp add: getType_def types_table_def register_def)

theorem C8_witness: "isArray (getType 25) = None \<and> type (getType 25) = TString"
  using C8_getType_unknown_oid_has_no_isArray by simp

section \<open>Evaluating the examples\<close>

lemmas example_defs = users_def owned_users_def tagged_users_def app_def uid_def tag_def column_def
  single_def array_def name_is_Ana_def name_and_ids_def with_unknown_column_def
  unknown_column_alone_def no_branches_def

lemmas where_defs = whereSQL_def map_branch_def admits_def single_or_array_def nullableOperators_def
  conn_str_def wrap_sub_def truthy_def startOr0_def List.map_filter_def

lemmas query_defs = makeQuery_def query_where_def default_where_def requiredVariables_def has_branch_def

lemmas number_defs = string_of_nat.simps string_of_int_def digit_def

lemmas glob_defs = matchGitignorePattern_def RegExp_test_def glob_to_regex_def replace_class_g_def
  escaped_class_def backslash_def syntax_chars_def line_terminator_def

section \<open>Pagination\<close>

lemma numberOfResults_in_range: "1 \<le> numberOfResults maxRows \<and> numberOfResults maxRows \<le> 100"
  by (simp add: numberOfResults_def)

lemma numberOfResults_clamps: "maxRows < 1 \<or> 100 < maxRows \<Longrightarrow> numberOfResults maxRows = 100"
  by (auto simp add: numberOfResults_def)

lemma negative_page_is_first_page:
  "page < 0 \<Longrightarrow> resolve_offset page maxRows = 0 \<and> currentPage (resolve_page_info page maxRows p t) = 1"
  by (simp add: resolve_offset_def resolve_page_info_def pageNumber_def)

lemma page_zero_offset: "resolve_offset 0 maxRows = - numberOfResults maxRows \<and> resolve_offset 0 maxRows < 0"
  by (simp add: resolve_offset_def pageNumber_def numberOfResults_def)

lemma hasNextPage_internal:
  "hasNextPage (resolve_page_info page maxRows p t) =
     ((case p of None \<Rightarrow> 0 | Some n \<Rightarrow> n) - pageNumber page > 0)"
  by (simp add: resolve_page_info_def)

text \<open>
  C6. The claim has \<open>page = 0\<close> clamped to page 1 with offset 0. The resolver computes
  \<open>pageNumber = Number(page) >= 0 ? Number(page) - 1 : 0\<close>, which is \<open>-1\<close> at
  \<open>page = 0\<close>: with \<open>maxRows = 20\<close> the offset passed to \<open>makeQuery\<close> is \<open>-20\<close>,
  not 0. \<open>maxRows = 500\<close> is clamped to 100 and \<open>currentPage\<close> is 1, as claimed. With
  5 rows in the table (the count query yields \<open>pages = 0\<close>, \<open>total_rows = 5\<close>) the
  returned \<open>hasNextPage\<close> is true although the returned \<open>pages - currentPage\<close> is 0.
\<close>

theorem C6_page_zero_gives_negative_offset:
  "numberOfResults 500 = 100 \<and>
   pageNumber 0 = - 1 \<and>
   resolve_offset 0 20 = - 20 \<and>
   resolve_page_info 0 20 (Some 0) (Some 5) =
     \<lparr>pages = 1, totalRows = 5, currentPage = 1, rowsPerPage = 20, hasNextPage = True\<rparr>"
  by (simp add: resolve_offset_def resolve_page_info_def numberOfResults_def pageNumber_def)

theorem C6_witness: "resolve_offset 0 20 < 0"
  using C6_page_zero_gives_negative_offset by simp

section \<open>The name-pattern matcher\<close>

lemma replace_class_g_Cons:
  "replace_class_g cls f (c # s) = (if cls c then f c else [c]) @ replace_class_g cls f s"
  by (simp add: replace_class_g_def)

lemma replace_class_g_append:
  "replace_class_g cls f (a @ b) = replace_class_g cls f a @ replace_class_g cls f b"
  by (simp add: replace_class_g_def)

lemma replace_class_g_Nil: "replace_class_g cls f [] = []"
  by (simp add: replace_class_g_def)

lemma glob_to_regex_Nil: "glob_to_regex [] = []"
  by (simp add: glob_to_regex_def replace_class_g_Nil)

lemma glob_to_regex_Cons: "glob_to_regex (c # p) = glob_to_regex [c] @ glob_to_regex p"
proof -
  have "glob_to_regex (c # p) = glob_to_regex ([c] @ p)" by simp
  also have "\<dots> = glob_to_regex [c] @ glob_to_regex p"
    unfolding glob_to_regex_def replace_class_g_append ..
  finally show ?thesis .
qed

text \<open>The regular expression text for one character of the pattern.\<close>

lemma glob_to_regex_char:
  "glob_to_regex [c] =
     (if c = CHR ''?'' then [backslash] @ ''.{1}''
      else if c = CHR ''*'' then ''.*''
      else if c \<in> set escaped_class then [backslash, c]
      else [c])"
  by (auto simp add: glob_to_regex_def replace_class_g_def escaped_class_def backslash_def)

lemma parse_quantifier_bare:
  "bare rest \<Longrightarrow> parse_quantifier a rest = map_option (\<lambda>r. (a, Once) # r) (parse_body rest)"
  by (cases rest) (simp_all add: bare_def)

lemma bare_glob_to_regex: "bare (glob_to_regex p)"
proof (cases p)
  case Nil
  then show ?thesis by (simp add: glob_to_regex_Nil bare_def)
next
  case (Cons c cs)
  have "bare (glob_to_regex [c] @ rest)" for rest
    by (auto simp add: glob_to_regex_char bare_def escaped_class_def backslash_def)
  then have "bare (glob_to_regex [c] @ glob_to_regex cs)" .
  then show ?thesis
    by (simp only: Cons glob_to_regex_Cons [of c cs])
qed

lemma parse_body_char:
  assumes "bare rest"
  shows "parse_body (glob_to_regex [c] @ rest) = map_option (\<lambda>r. glob_item c # r) (parse_body rest)"
proof -
  consider "c = CHR ''?''" | "c = CHR ''*''" | "c \<noteq> CHR ''?''" "c \<noteq> CHR ''*''" "c \<in> set escaped_class"
    | "c \<noteq> CHR ''?''" "c \<noteq> CHR ''*''" "c \<notin> set escaped_class"
    by blast
  then show ?thesis
  proof cases
    case 1
    then show ?thesis
      by (simp add: glob_to_regex_char glob_item_def backslash_def syntax_chars_def)
  next
    case 2
    then show ?thesis
      by (simp add: glob_to_regex_char glob_item_def backslash_def syntax_chars_def)
  next
    case 3
    then show ?thesis
      using assms by (simp add: glob_to_regex_char glob_item_def parse_quantifier_bare)
  next
    case 4
    then have "c \<noteq> backslash" "c \<noteq> CHR ''.''" "c \<notin> set syntax_chars"
      by (auto simp add: escaped_class_def syntax_chars_def)
    with 4 show ?thesis
      using assms by (simp add: glob_to_regex_char glob_item_def parse_quantifier_bare)
  qed
qed

lemma parse_body_glob_to_regex: "parse_body (glob_to_regex p) = Some (map glob_item p)"
proof (induction p)
  case Nil
  then show ?case by (simp add: glob_to_regex_Nil)
next
  case (Cons c p)
  have "parse_body (glob_to_regex (c # p)) = parse_body (glob_to_regex [c] @ glob_to_regex p)"
    by (simp only: glob_to_regex_Cons [of c p])
  also have "\<dots> = map_option (\<lambda>r. glob_item c # r) (parse_body (glob_to_regex p))"
    using bare_glob_to_regex by (rule parse_body_char)
  finally show ?case using Cons by simp
qed

lemma matchGitignorePattern_items:
  "matchGitignorePattern pattern str = Some (matches (map glob_item pattern) str)"
  by (simp add: matchGitignorePattern_def RegExp_test_def parse_body_glob_to_regex)

text \<open>
  C7. The claim has \<open>?\<close> match any single character, so that \<open>a?b\<close> matches \<open>axb\<close>.
  The first \<open>replace\<close> escapes \<open>?\<close> to \<open>\?\<close> before the third one rewrites \<open>?\<close> to
  \<open>.{1}\<close>; the regular expression built for \<open>a?b\<close> is \<open>^a\.{1}b$\<close>, an escaped dot
  taken once. It matches \<open>a.b\<close> and does not match \<open>axb\<close>: of the strings \<open>a\<close>, \<open>x\<close>,
  \<open>b\<close> it matches the one whose \<open>x\<close> is a dot. \<open>*\<close> does become \<open>.*\<close>.
\<close>

theorem C7_question_mark_matches_only_a_dot:
  "glob_to_regex ''a?b'' = [CHR ''a'', backslash, CHR ''.'', CHR ''{'', CHR ''1'', CHR ''}'', CHR ''b''] \<and>
   matchGitignorePattern ''a?b'' ''axb'' = Some False \<and>
   matchGitignorePattern ''a?b'' ''a.b'' = Some True \<and>
   matchGitignorePattern ''a*b'' ''axyb'' = Some True \<and>
   matchGitignorePattern ''a?b'' [CHR ''a'', x, CHR ''b''] = Some (x = CHR ''.'')"
  by (simp add: matchGitignorePattern_items glob_item_def glob_defs)

theorem C7_witness: "matchGitignorePattern ''a?b'' ''axb'' \<noteq> Some True"
  using C7_question_mark_matches_only_a_dot by simp

section \<open>Placeholders and parameters\<close>

text \<open>
  C1. The claim asks that the placeholders of every compiled statement be \<open>$1, ..., $n\<close>
  for its \<open>n\<close> parameters, in particular with ARRAY conditions. For the select over \<open>users\<close>
  with the filter \<open>name = 'Ana'\<close> and \<open>id IN [1, 2]\<close>, \<open>mapCondition\<close> numbers the elements
  of the array from 1 again (\<open>'$' + (i + 1)\<close>), whatever the \<open>values\<close> array already holds:
  the statement has the placeholders 1, 1, 2, 4, 5 for its five parameters, a repeat of 1
  and no 3.
\<close>

theorem C1_array_condition_restarts_placeholders:
  "makeQuery app users 20 0 (Some name_and_ids) None None None =
     Inr (\<lparr>q_query = ''SELECT * FROM app.users WHERE name = $1::text AND id IN ($1::int4, $2::int4)  LIMIT $4::integer OFFSET $5::integer'',
           q_values = [JString ''Ana'', JString ''1'', JString ''2'', JString ''20'', JString ''0''],
           q_orderByQuery = None,
           q_whereQuery = Some ''WHERE name = $1::text AND id IN ($1::int4, $2::int4)''\<rparr>, users) \<and>
   placeholders ''SELECT * FROM app.users WHERE name = $1::text AND id IN ($1::int4, $2::int4)  LIMIT $4::integer OFFSET $5::integer''
     = [1, 1, 2, 4, 5] \<and>
   \<not> placeholders_match
       ''SELECT * FROM app.users WHERE name = $1::text AND id IN ($1::int4, $2::int4)  LIMIT $4::integer OFFSET $5::integer''
       [JString ''Ana'', JString ''1'', JString ''2'', JString ''20'', JString ''0'']"
proof -
  have upt: "[0..<2] = [0, Suc 0]"
    by (simp add: upt_rec)
  have q: "makeQuery app users 20 0 (Some name_and_ids) None None None =
     Inr (\<lparr>q_query = ''SELECT * FROM app.users WHERE name = $1::text AND id IN ($1::int4, $2::int4)  LIMIT $4::integer OFFSET $5::integer'',
           q_values = [JString ''Ana'', JString ''1'', JString ''2'', JString ''20'', JString ''0''],
           q_orderByQuery = None,
           q_whereQuery = Some ''WHERE name = $1::text AND id IN ($1::int4, $2::int4)''\<rparr>, users)"
    by (simp add: query_defs example_defs where_defs number_defs upt)
  have p: "placeholders ''SELECT * FROM app.users WHERE name = $1::text AND id IN ($1::int4, $2::int4)  LIMIT $4::integer OFFSET $5::integer''
     = [1, 1, 2, 4, 5]"
    by (simp add: is_digit_def nat_of_digits_def digit_value_def)
  show ?thesis
    unfolding placeholders_match_def p using q by simp
qed

theorem C1_witness:
  "\<exists>r. makeQuery app users 20 0 (Some name_and_ids) None None None = Inr (r, users) \<and>
       \<not> distinct (placeholders (q_query r))"
  using C1_array_condition_restarts_placeholders by simp

section \<open>Required Variables\<close>

lemma makeQuery_throws_iff:
  "(\<exists>e. makeQuery schema tbl limit offset wher vars orderBy colsArg = Inl e) =
     (\<exists>k \<in> set (map fst (case vars of None \<Rightarrow> [] | Some vs \<Rightarrow> vs)). k \<notin> set (requiredVariables tbl))"
  by (auto simp add: makeQuery_def Let_def list_all_iff split: prod.splits)

lemma makeQuery_throws_message:
  "makeQuery schema tbl limit offset wher vars orderBy colsArg = Inl e \<Longrightarrow>
   e = Error (''One required variable is missing. Required variables: '' @ join '', '' (requiredVariables tbl))"
  by (auto simp add: makeQuery_def Let_def split: prod.splits if_splits)

lemma nullable_not_required:
  assumes "variables tbl = Some declared" and "distinct (map v_name declared)"
    and "v \<in> set declared" and "v_nullable v"
  shows "v_name v \<notin> set (requiredVariables tbl)"
proof
  assume "v_name v \<in> set (requiredVariables tbl)"
  with assms(1) obtain u where u: "u \<in> set declared" "\<not> v_nullable u" "v_name u = v_name v"
    by (auto simp add: requiredVariables_def)
  from assms(2) have "inj_on v_name (set declared)"
    by (simp add: distinct_map)
  with u(1,3) assms(3) have "u = v"
    by (auto dest: inj_onD)
  with u(2) assms(4) show False by simp
qed

text \<open>
  C10. The select builder throws exactly when the supplied Variable map has a key that is
  not the name of a non-nullable Variable of a Table with a \<open>defaultWhere\<close>. Hence a
  declared nullable Variable, once supplied, raises the error whatever else is supplied,
  and an empty or absent map never raises it.
\<close>

theorem C10_makeQuery_throws_on_keys_outside_required:
  "((\<exists>e. makeQuery schema tbl limit offset wher vars orderBy colsArg = Inl e) =
      (\<exists>k \<in> set (map fst (case vars of None \<Rightarrow> [] | Some vs \<Rightarrow> vs)). k \<notin> set (requiredVariables tbl))) \<and>
   (variables tbl = Some declared \<and> distinct (map v_name declared) \<and> v \<in> set declared \<and>
    v_nullable v \<and> (v_name v, x) \<in> set vs \<longrightarrow>
      makeQuery schema tbl limit offset wher (Some vs) orderBy colsArg =
        Inl (Error (''One required variable is missing. Required variables: '' @
                    join '', '' (requiredVariables tbl)))) \<and>
   (\<forall>e. makeQuery schema tbl limit offset wher (Some []) orderBy colsArg \<noteq> Inl e) \<and>
   (\<forall>e. makeQuery schema tbl limit offset wher None orderBy colsArg \<noteq> Inl e)"
proof (intro conjI impI allI)
  show "(\<exists>e. makeQuery schema tbl limit offset wher vars orderBy colsArg = Inl e) =
      (\<exists>k \<in> set (map fst (case vars of None \<Rightarrow> [] | Some vs \<Rightarrow> vs)). k \<notin> set (requiredVariables tbl))"
    by (rule makeQuery_throws_iff)
next
  assume a: "variables tbl = Some declared \<and> distinct (map v_name declared) \<and> v \<in> set declared \<and>
    v_nullable v \<and> (v_name v, x) \<in> set vs"
  then have "v_name v \<notin> set (requiredVariables tbl)"
    using nullable_not_required by blast
  moreover from a have "v_name v \<in> set (map fst vs)"
    by force
  ultimately have "\<exists>k \<in> set (map fst vs). k \<notin> set (requiredVariables tbl)"
    by blast
  then have "\<exists>e. makeQuery schema tbl limit offset wher (Some vs) orderBy colsArg = Inl e"
    using makeQuery_throws_iff [of schema tbl limit offset wher "Some vs" orderBy colsArg] by simp
  then show "makeQuery schema tbl limit offset wher (Some vs) orderBy colsArg =
        Inl (Error (''One required variable is missing. Required variables: '' @
                    join '', '' (requiredVariables tbl)))"
    using makeQuery_throws_message by blast
next
  fix e
  show "makeQuery schema tbl limit offset wher (Some []) orderBy colsArg \<noteq> Inl e"
    using makeQuery_throws_iff [of schema tbl limit offset wher "Some []" orderBy colsArg] by auto
next
  fix e
  show "makeQuery schema tbl limit offset wher None orderBy colsArg \<noteq> Inl e"
    using makeQuery_throws_iff [of schema tbl limit offset wher None orderBy colsArg] by auto
qed

theorem C10_witness:
  "requiredVariables tagged_users = [''uid''] \<and>
   makeQuery app tagged_users 20 0 None (Some [(''uid'', JNumber 7), (''tag'', JString ''x'')]) None None =
     Inl (Error ''One required variable is missing. Required variables: uid'') \<and>
   makeQuery app tagged_users 20 0 None (Some []) None None \<noteq>
     Inl (Error ''One required variable is missing. Required variables: uid'')"
proof -
  have r: "requiredVariables tagged_users = [''uid'']"
    by (simp add: requiredVariables_def example_defs truthy_def)
  have h: "variables tagged_users = Some [uid, tag] \<and> distinct (map v_name [uid, tag]) \<and>
           tag \<in> set [uid, tag] \<and> v_nullable tag \<and> (v_name tag, JString ''x'') \<in> set [(''uid'', JNumber 7), (''tag'', JString ''x'')]"
    by (simp add: example_defs)
  from h r show ?thesis
    using C10_makeQuery_throws_on_keys_outside_required
      [of app tagged_users 20 0 None "Some [(''uid'', JNumber 7), (''tag'', JString ''x'')]" None None
          "[uid, tag]" tag "JString ''x''" "[(''uid'', JNumber 7), (''tag'', JString ''x'')]"]
    by (simp add: uid_def tag_def)
qed

text \<open>
  C2. The claim has the select and insert builders throw when a required Variable is
  omitted, and not throw when all required ones are supplied. \<open>owned_users\<close> requires
  \<open>uid\<close>. \<open>makeQuery\<close> with the empty map \<open>{}\<close> returns a statement, with the raw token
  \<open>$uid\<close> in its text; \<open>makeMutationCreate\<close> without a \<open>variables\<close> argument returns a
  statement too. On \<open>tagged_users\<close>, supplying the required \<open>uid\<close> together with the
  declared optional \<open>tag\<close> makes \<open>makeQuery\<close> throw. The test in \<open>makeQuery\<close> asks that
  every supplied key be a required name, not that every required name be supplied.
\<close>

theorem C2_missing_required_variable_is_not_detected:
  "requiredVariables owned_users = [''uid''] \<and>
   makeQuery app owned_users 20 0 None (Some []) None None =
     Inr (\<lparr>q_query = ''SELECT * FROM app.users WHERE (owner = $uid) = TRUE  LIMIT $2::integer OFFSET $3::integer'',
           q_values = [JNull, JString ''20'', JString ''0''],
           q_orderByQuery = None,
           q_whereQuery = Some ''WHERE (owner = $uid) = TRUE''\<rparr>, owned_users) \<and>
   makeMutationCreate app owned_users [[(''id'', JNumber 1), (''name'', JString ''Bob'')]] None =
     Inr (\<lparr>mc_query = ''INSERT INTO app.users(id, name, email) SELECT  WHERE (owner = $uid) RETURNING *'',
           mc_values = [PScalar (JNumber 1), PScalar (JString ''Bob''), PScalar JNull]\<rparr>, owned_users) \<and>
   requiredVariables tagged_users = [''uid''] \<and>
   makeQuery app tagged_users 20 0 None (Some [(''uid'', JNumber 7), (''tag'', JString ''x'')]) None None =
     Inl (Error ''One required variable is missing. Required variables: uid'')"
  by (simp add: query_defs makeMutationCreate_def create_check_def create_keys_def slice0_def
        example_defs where_defs number_defs)

theorem C2_witness:
  "\<exists>r. makeQuery app owned_users 20 0 None (Some []) None None = Inr r"
  using C2_missing_required_variable_is_not_detected by simp

section \<open>The defaultWhere template\<close>

text \<open>
  C3. The claim has the first Variable of the \<open>defaultWhere\<close> fragment take index 1 when
  no start offset is supplied. The loop of \<open>whereSQL\<close> numbers the Variables
  \<open>i + (startVarIndex ?? 0)\<close> with \<open>i\<close> from 0: on \<open>owned_users\<close>, whose fragment is
  \<open>owner = $uid\<close>, the token becomes \<open>$0\<close>, while the value of \<open>uid\<close> is the first
  parameter and the caller's filter takes \<open>$2\<close>. The fragment is wrapped in parentheses,
  compared \<open>= TRUE\<close> and AND-prefixed as claimed.
\<close>

theorem C3_first_variable_takes_index_zero:
  "whereSQL name_is_Ana [JString ''7''] owned_users None =
     (''WHERE (owner = $0) = TRUE AND name = $2::text'', [JString ''7'', JString ''Ana''],
      owned_users\<lparr>defaultWhere := Some ''owner = $0''\<rparr>) \<and>
   makeQuery app owned_users 20 0 (Some name_is_Ana) (Some [(''uid'', JNumber 7)]) None None =
     Inr (\<lparr>q_query = ''SELECT * FROM app.users WHERE (owner = $0) = TRUE AND name = $2::text  LIMIT $3::integer OFFSET $4::integer'',
           q_values = [JString ''7'', JString ''Ana'', JString ''20'', JString ''0''],
           q_orderByQuery = None,
           q_whereQuery = Some ''WHERE (owner = $0) = TRUE AND name = $2::text''\<rparr>,
          owned_users\<lparr>defaultWhere := Some ''owner = $0''\<rparr>)"
  by (simp add: query_defs example_defs where_defs number_defs)

theorem C3_witness:
  "fst (whereSQL name_is_Ana [JString ''7''] owned_users None) = ''WHERE (owner = $0) = TRUE AND name = $2::text''"
  using C3_first_variable_takes_index_zero by simp

section \<open>Update and delete without a filter tree\<close>

text \<open>
  C4. An update or delete whose condition tree has neither an \<open>AND\<close> nor an \<open>OR\<close>
  branch compiles with the predicate \<open>WHERE TRUE IS FALSE\<close>. No filter parameter is
  emitted: the delete has no parameter at all, the update has exactly the values of its
  \<open>SET\<close> list, one per key, numbered from \<open>$1\<close>. The Table is left as it was.
\<close>

theorem C4_no_branch_compiles_to_impossible_predicate:
  assumes "AND wher = None" and "OR wher = None"
  shows "makeMutationUpdate schema tbl val wher =
           (\<lparr>u_query = ''UPDATE '' @ s_name schema @ ''.'' @ t_name tbl @ '' SET ('' @
                        join '', '' (update_keys tbl val) @ '') = ('' @
                        join '', '' (map (\<lambda>i. ''$'' @ string_of_nat (i + 1))
                                      [0..<length (update_values tbl val)]) @
                        '') WHERE TRUE IS FALSE RETURNING *'',
             u_whereQuery = ''WHERE TRUE IS FALSE'',
             u_values = update_values tbl val\<rparr>, tbl) \<and>
         length (update_values tbl val) = length (update_keys tbl val) \<and>
         makeMutationDelete schema tbl wher =
           (\<lparr>d_query = ''DELETE FROM '' @ s_name schema @ ''.'' @ t_name tbl @
                        '' WHERE TRUE IS FALSE RETURNING *'',
             d_whereQuery = ''WHERE TRUE IS FALSE'',
             d_values = []\<rparr>, tbl)"
  using assms
  by (simp add: makeMutationUpdate_def makeMutationDelete_def has_branch_def update_values_def)

theorem C4_witness:
  "AND no_branches = None \<and> OR no_branches = None \<and>
   makeMutationUpdate app users [(''name'', JString ''Bob''), (''age'', JNumber 3)] no_branches =
     (\<lparr>u_query = ''UPDATE app.users SET (name) = ($1) WHERE TRUE IS FALSE RETURNING *'',
       u_whereQuery = ''WHERE TRUE IS FALSE'', u_values = [JString ''Bob'']\<rparr>, users) \<and>
   makeMutationDelete app users no_branches =
     (\<lparr>d_query = ''DELETE FROM app.users WHERE TRUE IS FALSE RETURNING *'',
       d_whereQuery = ''WHERE TRUE IS FALSE'', d_values = []\<rparr>, users)"
  using C4_no_branch_compiles_to_impossible_predicate
    [of no_branches app users "[(''name'', JString ''Bob''), (''age'', JNumber 3)]"]
  by (simp add: example_defs update_keys_def update_values_def number_defs)

section \<open>Leaves of unknown columns\<close>

text \<open>
  Inside an object, a member whose key names no Column is passed over by the loop
  \<open>keys.forEach\<close>: the object compiles as it does without that member.
\<close>

lemma forEach_keys_unknown_leaf:
  assumes "find (\<lambda>c. c_name c = k) cs = None"
  shows "forEach_keys cs svi (ms1 @ Leaf k leaf # ms2) ty st = forEach_keys cs svi (ms1 @ ms2) ty st"
proof (induction ms1 arbitrary: st)
  case Nil
  obtain conditions subAND subOR vals where "st = (conditions, subAND, subOR, vals)"
    by (cases st) auto
  then show ?case using assms by simp
next
  case (Cons m ms1)
  obtain conditions subAND subOR vals where st: "st = (conditions, subAND, subOR, vals)"
    by (cases st) auto
  show ?case
  proof (cases m)
    case (Sub key va)
    then show ?thesis using Cons st by (simp split: prod.splits)
  next
    case (Leaf k' leaf')
    then show ?thesis using Cons st by simp
  qed
qed

lemma unknown_leaf_in_object:
  assumes "find (\<lambda>c. c_name c = k) cs = None"
  shows "mapWhere cs svi (Obj (ms1 @ Leaf k leaf # ms2)) ty vals = mapWhere cs svi (Obj (ms1 @ ms2)) ty vals"
  using assms by (simp add: forEach_keys_unknown_leaf)



section \<open>The Table after a compilation\<close>

















end
